theory Spec2Isabelle
  imports Main "HOL-Library.Sublist"
begin

section \<open>Python values and the built-in operations the handlers use\<close>

text \<open>
  The value \<^verbatim>\<open>response.json()\<close> returns is a Python object built from
  \<^verbatim>\<open>None\<close>, booleans, integers, strings, lists and dictionaries. A dictionary is
  kept as the list of its items in insertion order; a lookup reads the first binding
  of a key. Numbers with a fractional part are outside the model. One \<open>char\<close>
  stands for one character of a Python string.
\<close>

datatype json =
    JNull
  | JBool bool
  | JInt int
  | JStr string
  | JArr "json list"
  | JObj "(string \<times> json) list"

text \<open>The exceptions that the handlers' own expressions can raise.\<close>

datatype py_error = TypeError | KeyError | IndexError | AttributeError

text \<open>Sequencing of two steps of which the first may raise.\<close>

fun and_then :: "py_error + 'a \<Rightarrow> ('a \<Rightarrow> py_error + 'b) \<Rightarrow> py_error + 'b" where
  "and_then (Inl e) f = Inl e"
| "and_then (Inr x) f = f x"

text \<open>\<^verbatim>\<open>bool(v)\<close>, the test behind \<^verbatim>\<open>not v\<close>, \<^verbatim>\<open>v and w\<close> and \<^verbatim>\<open>x if v else y\<close>.\<close>

fun truthy :: "json \<Rightarrow> bool" where
  "truthy JNull = False"
| "truthy (JBool b) = b"
| "truthy (JInt i) = (i \<noteq> 0)"
| "truthy (JStr s) = (s \<noteq> [])"
| "truthy (JArr xs) = (xs \<noteq> [])"
| "truthy (JObj kvs) = (kvs \<noteq> [])"

text \<open>
  \<^verbatim>\<open>k in v\<close> for a string \<open>k\<close>: a key of a dictionary, an element of a list, a
  substring of a string; any other right operand raises \<^verbatim>\<open>TypeError\<close>.
\<close>

fun py_in :: "string \<Rightarrow> json \<Rightarrow> py_error + bool" where
  "py_in k (JObj kvs) = Inr (map_of kvs k \<noteq> None)"
| "py_in k (JArr xs) = Inr (JStr k \<in> set xs)"
| "py_in k (JStr s) = Inr (sublist k s)"
| "py_in k JNull = Inl TypeError"
| "py_in k (JBool b) = Inl TypeError"
| "py_in k (JInt i) = Inl TypeError"

text \<open>\<^verbatim>\<open>v[k]\<close> for a string \<open>k\<close>: only a dictionary can be indexed by a string.\<close>

fun subscript :: "json \<Rightarrow> string \<Rightarrow> py_error + json" where
  "subscript (JObj kvs) k = (case map_of kvs k of None \<Rightarrow> Inl KeyError | Some v \<Rightarrow> Inr v)"
| "subscript (JArr xs) k = Inl TypeError"
| "subscript (JStr s) k = Inl TypeError"
| "subscript JNull k = Inl TypeError"
| "subscript (JBool b) k = Inl TypeError"
| "subscript (JInt i) k = Inl TypeError"

text \<open>\<^verbatim>\<open>v[0]\<close>. A dictionary built from JSON has string keys only, so \<open>0\<close> is never a key.\<close>

fun subscript0 :: "json \<Rightarrow> py_error + json" where
  "subscript0 (JArr []) = Inl IndexError"
| "subscript0 (JArr (x # xs)) = Inr x"
| "subscript0 (JStr []) = Inl IndexError"
| "subscript0 (JStr (c # cs)) = Inr (JStr [c])"
| "subscript0 (JObj kvs) = Inl KeyError"
| "subscript0 JNull = Inl TypeError"
| "subscript0 (JBool b) = Inl TypeError"
| "subscript0 (JInt i) = Inl TypeError"

text \<open>\<^verbatim>\<open>len(v)\<close>.\<close>

fun py_len :: "json \<Rightarrow> py_error + nat" where
  "py_len (JArr xs) = Inr (length xs)"
| "py_len (JStr s) = Inr (length s)"
| "py_len (JObj kvs) = Inr (length kvs)"
| "py_len JNull = Inl TypeError"
| "py_len (JBool b) = Inl TypeError"
| "py_len (JInt i) = Inl TypeError"

text \<open>\<^verbatim>\<open>v.get(k, d)\<close>: a method of dictionaries only.\<close>

fun py_get :: "json \<Rightarrow> string \<Rightarrow> json \<Rightarrow> py_error + json" where
  "py_get (JObj kvs) k d = Inr (case map_of kvs k of None \<Rightarrow> d | Some v \<Rightarrow> v)"
| "py_get (JArr xs) k d = Inl AttributeError"
| "py_get (JStr s) k d = Inl AttributeError"
| "py_get JNull k d = Inl AttributeError"
| "py_get (JBool b) k d = Inl AttributeError"
| "py_get (JInt i) k d = Inl AttributeError"

text \<open>Iteration (\<^verbatim>\<open>for x in v\<close>): the elements of a list, the keys of a dictionary,
  the characters of a string.\<close>

fun py_iter :: "json \<Rightarrow> py_error + json list" where
  "py_iter (JArr xs) = Inr xs"
| "py_iter (JObj kvs) = Inr (map (\<lambda>kv. JStr (fst kv)) kvs)"
| "py_iter (JStr s) = Inr (map (\<lambda>c. JStr [c]) s)"
| "py_iter JNull = Inl TypeError"
| "py_iter (JBool b) = Inl TypeError"
| "py_iter (JInt i) = Inl TypeError"

text \<open>\<^verbatim>\<open>a + b\<close>: numbers add (a boolean counts as 0 or 1), strings and lists concatenate.\<close>

fun as_number :: "json \<Rightarrow> int option" where
  "as_number (JInt i) = Some i"
| "as_number (JBool b) = Some (if b then 1 else 0)"
| "as_number JNull = None"
| "as_number (JStr s) = None"
| "as_number (JArr xs) = None"
| "as_number (JObj kvs) = None"

fun py_add :: "json \<Rightarrow> json \<Rightarrow> py_error + json" where
  "py_add (JStr a) (JStr b) = Inr (JStr (a @ b))"
| "py_add (JArr a) (JArr b) = Inr (JArr (a @ b))"
| "py_add a b =
     (case (as_number a, as_number b) of
        (Some i, Some j) \<Rightarrow> Inr (JInt (i + j))
      | _ \<Rightarrow> Inl TypeError)"

subsection \<open>Text: decimal numerals, \<^verbatim>\<open>repr\<close>, \<^verbatim>\<open>str\<close>, \<^verbatim>\<open>join\<close>\<close>

definition digit_char :: "nat \<Rightarrow> char" where
  "digit_char d = ''0123456789abcdef'' ! (d mod 16)"

function show_nat :: "nat \<Rightarrow> string" where
  "show_nat n = (if n < 10 then [digit_char n] else show_nat (n div 10) @ [digit_char (n mod 10)])"
  by pat_completeness auto
termination
  by (relation "measure id") auto

definition show_int :: "int \<Rightarrow> string" where
  "show_int i = (if i < 0 then CHR ''-'' # show_nat (nat (- i)) else show_nat (nat i))"

text \<open>
  \<^verbatim>\<open>repr\<close> of a string: single quotes, unless the string holds a single quote and no
  double quote; the backslash, the chosen quote, newline, carriage return and tab are
  escaped by a backslash, and every other character that Python does not count as
  printable as \<^verbatim>\<open>\xNN\<close>: among the characters below 0x100 these are the ones below
  0x20, those from 0x7F to 0xA0, and 0xAD.
\<close>

definition py_quote :: "string \<Rightarrow> char" where
  "py_quote s =
     (if CHR 0x27 \<in> set s \<and> CHR 0x22 \<notin> set s then CHR 0x22 else CHR 0x27)"

definition escape_char :: "char \<Rightarrow> char \<Rightarrow> string" where
  "escape_char q c =
     (if c = CHR 0x5C then [CHR 0x5C, CHR 0x5C]
      else if c = q then [CHR 0x5C, q]
      else if c = CHR 0x0A then [CHR 0x5C, CHR ''n'']
      else if c = CHR 0x0D then [CHR 0x5C, CHR ''r'']
      else if c = CHR 0x09 then [CHR 0x5C, CHR ''t'']
      else if (of_char c :: nat) < 32
              \<or> (127 \<le> (of_char c :: nat) \<and> (of_char c :: nat) \<le> 160)
              \<or> c = CHR 0xAD
        then [CHR 0x5C, CHR ''x'', digit_char (of_char c div 16), digit_char (of_char c mod 16)]
      else [c])"

definition repr_str :: "string \<Rightarrow> string" where
  "repr_str s = (let q = py_quote s in [q] @ concat (map (escape_char q) s) @ [q])"

fun join_str :: "string \<Rightarrow> string list \<Rightarrow> string" where
  "join_str sep [] = []"
| "join_str sep [s] = s"
| "join_str sep (s # t # ts) = s @ sep @ join_str sep (t # ts)"

fun py_repr :: "json \<Rightarrow> string" where
  "py_repr JNull = ''None''"
| "py_repr (JBool b) = (if b then ''True'' else ''False'')"
| "py_repr (JInt i) = show_int i"
| "py_repr (JStr s) = repr_str s"
| "py_repr (JArr xs) = ''['' @ join_str '', '' (map py_repr xs) @ '']''"
| "py_repr (JObj kvs) =
     ''{'' @ join_str '', '' (map (\<lambda>kv. repr_str (fst kv) @ '': '' @ py_repr (snd kv)) kvs) @ ''}''"

text \<open>\<^verbatim>\<open>str(v)\<close>, which is also how an f-string renders \<^verbatim>\<open>{v}\<close>: a string is itself,
  every other value is its \<^verbatim>\<open>repr\<close>.\<close>

fun py_str :: "json \<Rightarrow> string" where
  "py_str (JStr s) = s"
| "py_str JNull = py_repr JNull"
| "py_str (JBool b) = py_repr (JBool b)"
| "py_str (JInt i) = py_repr (JInt i)"
| "py_str (JArr xs) = py_repr (JArr xs)"
| "py_str (JObj kvs) = py_repr (JObj kvs)"

text \<open>\<^verbatim>\<open>sep.join(xs)\<close>: every item must be a string.\<close>

fun str_items :: "json list \<Rightarrow> string list option" where
  "str_items [] = Some []"
| "str_items (JStr s # xs) = (case str_items xs of None \<Rightarrow> None | Some ss \<Rightarrow> Some (s # ss))"
| "str_items (x # xs) = None"

definition py_join :: "string \<Rightarrow> json list \<Rightarrow> py_error + string" where
  "py_join sep xs = (case str_items xs of None \<Rightarrow> Inl TypeError | Some ss \<Rightarrow> Inr (join_str sep ss))"

text \<open>\<^verbatim>\<open>s.replace("\n", " ")\<close> and \<^verbatim>\<open>s.strip()\<close>.\<close>

definition replace_newlines :: "string \<Rightarrow> string" where
  "replace_newlines s = map (\<lambda>c. if c = CHR 0x0A then CHR '' '' else c) s"

definition is_space :: "char \<Rightarrow> bool" where
  "is_space c = (c \<in> set [CHR '' '', CHR 0x09, CHR 0x0A, CHR 0x0B, CHR 0x0C, CHR 0x0D,
                            CHR 0x1C, CHR 0x1D, CHR 0x1E, CHR 0x1F, CHR 0x85, CHR 0xA0])"

definition strip :: "string \<Rightarrow> string" where
  "strip s = rev (dropWhile is_space (rev (dropWhile is_space s)))"

text \<open>
  An f-string is a sequence of pieces, literal text and formatted expressions, evaluated
  from left to right; the first expression that raises ends the evaluation.
\<close>

fun fstring :: "(py_error + string) list \<Rightarrow> py_error + string" where
  "fstring [] = Inr []"
| "fstring (Inl e # ps) = Inl e"
| "fstring (Inr s # ps) = (case fstring ps of Inl e \<Rightarrow> Inl e | Inr t \<Rightarrow> Inr (s @ t))"

definition lit :: "string \<Rightarrow> py_error + string" where
  "lit s = Inr s"

definition fmt :: "py_error + json \<Rightarrow> py_error + string" where
  "fmt r = (case r of Inl e \<Rightarrow> Inl e | Inr v \<Rightarrow> Inr (py_str v))"

section \<open>The GraphQL client\<close>

text \<open>
  The process-wide values read at import time, and the network. \<open>GITHUB_TOKEN\<close> is what
  \<^verbatim>\<open>os.getenv\<close> returned: a string, or \<^verbatim>\<open>None\<close> when the variable is not set.
  \<open>post\<close> is what \<^verbatim>\<open>client.post\<close> does with a request: it raises
  \<^verbatim>\<open>httpx.TimeoutException\<close>, raises another exception, or returns a response with
  a status code and a body; the body is \<open>None\<close> when \<^verbatim>\<open>response.json()\<close> raises on
  it and the parsed value otherwise.
\<close>

record request =
  url :: string
  headers :: "(string \<times> string) list"
  json_body :: json
  timeout :: nat

datatype post_outcome = RaisesTimeout | RaisesOther | Responds nat "json option"

record world =
  GITHUB_TOKEN :: json
  post :: "request \<Rightarrow> post_outcome"

text \<open>One line printed to standard output by the client; the list of lines printed
  so far is the only state a call changes.\<close>

datatype diag = GraphQLErrors json | RequestTimedOut | HTTPError nat | UnexpectedError

definition GITHUB_GRAPHQL_URL :: string where
  "GITHUB_GRAPHQL_URL = ''https://api.github.com/graphql''"

text \<open>\<^verbatim>\<open>response.raise_for_status()\<close> of httpx returns for a 2xx status and raises
  \<^verbatim>\<open>HTTPStatusError\<close> for every other one.\<close>

definition is_success :: "nat \<Rightarrow> bool" where
  "is_success status = (200 \<le> status \<and> status < 300)"

text \<open>The request that \<^verbatim>\<open>client.post\<close> is given: the endpoint, the two headers, the
  JSON body and the timeout of 30 seconds.\<close>

definition graphql_request :: "world \<Rightarrow> json \<Rightarrow> json \<Rightarrow> request" where
  "graphql_request w query variables =
     \<lparr>url = GITHUB_GRAPHQL_URL,
      headers = [(''Authorization'', ''Bearer '' @ py_str (GITHUB_TOKEN w)),
                 (''Content-Type'', ''application/json'')],
      json_body = JObj [(''query'', query), (''variables'', variables)],
      timeout = 30\<rparr>"

text \<open>The function returns a Python value, \<open>JNull\<close> being \<^verbatim>\<open>None\<close>, and the lines
  printed. Every exception raised in the \<^verbatim>\<open>try\<close> block ends in one of the three
  handlers, each of which prints a line and returns \<^verbatim>\<open>None\<close>.\<close>

definition make_github_request :: "world \<Rightarrow> json \<Rightarrow> json \<Rightarrow> diag list \<Rightarrow> json \<times> diag list" where
  "make_github_request w query variables out =
     (case post w (graphql_request w query variables) of
        RaisesTimeout \<Rightarrow> (JNull, out @ [RequestTimedOut])
      | RaisesOther \<Rightarrow> (JNull, out @ [UnexpectedError])
      | Responds status body \<Rightarrow>
          if \<not> is_success status then (JNull, out @ [HTTPError status])
          else (case body of
                  None \<Rightarrow> (JNull, out @ [UnexpectedError])
                | Some result \<Rightarrow>
                    (case py_in ''errors'' result of
                       Inl e \<Rightarrow> (JNull, out @ [UnexpectedError])
                     | Inr True \<Rightarrow>
                         (case subscript result ''errors'' of
                            Inl e \<Rightarrow> (JNull, out @ [UnexpectedError])
                          | Inr errs \<Rightarrow> (JNull, out @ [GraphQLErrors errs]))
                     | Inr False \<Rightarrow> (result, out))))"

text \<open>
  A call of \<^verbatim>\<open>make_github_request\<close> binds its positional arguments to the two
  parameters \<^verbatim>\<open>query\<close> and \<^verbatim>\<open>variables\<close>; with any other number of arguments Python
  raises \<^verbatim>\<open>TypeError\<close> at the call, before the body runs.
\<close>

definition call_make_github_request ::
    "world \<Rightarrow> json list \<Rightarrow> diag list \<Rightarrow> (py_error + json) \<times> diag list" where
  "call_make_github_request w args out =
     (case args of
        [query, variables] \<Rightarrow>
          (case make_github_request w query variables out of (r, out') \<Rightarrow> (Inr r, out'))
      | _ \<Rightarrow> (Inl TypeError, out))"

section \<open>The repository handler\<close>

definition repository_query :: string where
  "repository_query = concat (map (\<lambda>l. CHR 0x0A # l)
    [
     ''    query($owner: String!, $name: String!) {'',
     ''      repository(owner: $owner, name: $name) {'',
     ''        name'',
     ''        description'',
     ''        url'',
     ''        stargazerCount'',
     ''        forkCount'',
     ''        issues(states: OPEN) {'',
     ''          totalCount'',
     ''        }'',
     ''        pullRequests(states: OPEN) {'',
     ''          totalCount'',
     ''        }'',
     ''        primaryLanguage {'',
     ''          name'',
     ''        }'',
     ''        languages(first: 10) {'',
     ''          nodes {'',
     ''            name'',
     ''          }'',
     ''        }'',
     ''        releases(last: 1) {'',
     ''          nodes {'',
     ''            tagName'',
     ''            publishedAt'',
     ''          }'',
     ''        }'',
     ''      }'',
     ''    }'',
     ''    ''
    ])"

fun map_raise :: "('a \<Rightarrow> py_error + 'b) \<Rightarrow> 'a list \<Rightarrow> py_error + 'b list" where
  "map_raise f [] = Inr []"
| "map_raise f (x # xs) =
     (case f x of
        Inl e \<Rightarrow> Inl e
      | Inr y \<Rightarrow> (case map_raise f xs of Inl e \<Rightarrow> Inl e | Inr ys \<Rightarrow> Inr (y # ys)))"

text \<open>\<^verbatim>\<open>[lang["name"] for lang in repo["languages"]["nodes"]]\<close>\<close>

definition languages_of :: "json \<Rightarrow> py_error + json list" where
  "languages_of repo =
     and_then (and_then (subscript repo ''languages'') (\<lambda>l. subscript l ''nodes''))
       (\<lambda>nodes. and_then (py_iter nodes) (map_raise (\<lambda>lang. subscript lang ''name'')))"

text \<open>The conditional expression that picks \<^verbatim>\<open>latest_release\<close>: the first release
  node when the node list is truthy and its length is positive, \<^verbatim>\<open>None\<close> otherwise.\<close>

definition latest_release_of :: "json \<Rightarrow> py_error + json" where
  "latest_release_of repo =
     and_then (and_then (subscript repo ''releases'') (\<lambda>r. subscript r ''nodes''))
       (\<lambda>nodes.
          if truthy nodes
          then and_then (py_len nodes) (\<lambda>n. if 0 < n then subscript0 nodes else Inr JNull)
          else Inr JNull)"

text \<open>The expression of the \<^verbatim>\<open>Primary Language\<close> field.\<close>

definition primary_language_text :: "json \<Rightarrow> py_error + json" where
  "primary_language_text repo =
     and_then (subscript repo ''primaryLanguage'')
       (\<lambda>pl. if truthy pl then subscript pl ''name'' else Inr (JStr ''None''))"

text \<open>The expression of the \<^verbatim>\<open>Latest Release\<close> field; the sums are evaluated from
  the left, each before the next operand is read.\<close>

definition release_text :: "json \<Rightarrow> py_error + json" where
  "release_text latest_release =
     (if truthy latest_release
      then and_then (subscript latest_release ''tagName'')
             (\<lambda>tag. and_then (py_add tag (JStr '' (''))
             (\<lambda>a. and_then (subscript latest_release ''publishedAt'')
             (\<lambda>published. and_then (py_add a published)
             (\<lambda>b. py_add b (JStr '')'')))))
      else Inr (JStr ''None''))"

text \<open>The body of \<^verbatim>\<open>get_repository_info\<close> from the test of \<^verbatim>\<open>data\<close> on.\<close>

definition repository_text :: "json \<Rightarrow> string \<Rightarrow> string \<Rightarrow> py_error + string" where
  "repository_text data owner name =
     (if \<not> truthy data then Inr ''Unable to fetch repository information.''
      else and_then (py_in ''data'' data) (\<lambda>has_data.
        if \<not> has_data then Inr ''Unable to fetch repository information.''
        else and_then (and_then (subscript data ''data'') (\<lambda>d. subscript d ''repository''))
          (\<lambda>repo.
             if \<not> truthy repo
             then Inr (''Repository '' @ owner @ ''/'' @ name @ '' not found.'')
             else and_then (languages_of repo) (\<lambda>languages.
                  and_then (latest_release_of repo) (\<lambda>latest_release.
                    fstring
                      [lit (CHR 0x0A # ''Repository: ''), fmt (subscript repo ''name''),
                       lit (CHR 0x0A # ''Description: ''),
                       fmt (py_get repo ''description'' (JStr ''No description'')),
                       lit (CHR 0x0A # ''URL: ''), fmt (subscript repo ''url''),
                       lit (CHR 0x0A # ''Stars: ''), fmt (subscript repo ''stargazerCount''),
                       lit (CHR 0x0A # ''Forks: ''), fmt (subscript repo ''forkCount''),
                       lit (CHR 0x0A # ''Open Issues: ''),
                       fmt (and_then (subscript repo ''issues'') (\<lambda>i. subscript i ''totalCount'')),
                       lit (CHR 0x0A # ''Open Pull Requests: ''),
                       fmt (and_then (subscript repo ''pullRequests'')
                              (\<lambda>p. subscript p ''totalCount'')),
                       lit (CHR 0x0A # ''Primary Language: ''),
                       fmt (primary_language_text repo),
                       lit (CHR 0x0A # ''Languages: ''), py_join '', '' languages,
                       lit (CHR 0x0A # ''Latest Release: ''),
                       fmt (release_text latest_release),
                       lit [CHR 0x0A]])))))"

definition get_repository_info ::
    "world \<Rightarrow> string \<Rightarrow> string \<Rightarrow> diag list \<Rightarrow> (py_error + string) \<times> diag list" where
  "get_repository_info w owner name out =
     (let variables = JObj [(''owner'', JStr owner), (''name'', JStr name)]
      in case call_make_github_request w
                [JStr (strip (replace_newlines repository_query)), variables] out of
           (Inl e, out') \<Rightarrow> (Inl e, out')
         | (Inr data, out') \<Rightarrow> (repository_text data owner name, out'))"

section \<open>The user handler\<close>

definition user_query :: string where
  "user_query = concat (map (\<lambda>l. CHR 0x0A # l)
    [
     ''    query($username: String!) {'',
     ''      user(login: $username) {'',
     ''        name'',
     ''        login'',
     ''        bio'',
     ''        company'',
     ''        location'',
     ''        email'',
     ''        websiteUrl'',
     ''        repositories {'',
     ''          totalCount'',
     ''        }'',
     ''        followers {'',
     ''          totalCount'',
     ''        }'',
     ''        following {'',
     ''          totalCount'',
     ''        }'',
     ''        contributionsCollection {'',
     ''          totalCommitContributions'',
     ''        }'',
     ''      }'',
     ''    }'',
     ''    ''
    ])"

text \<open>The body of \<^verbatim>\<open>get_user_info\<close> from the test of \<^verbatim>\<open>data\<close> on.\<close>

definition user_text :: "json \<Rightarrow> string \<Rightarrow> py_error + string" where
  "user_text data username =
     (if \<not> truthy data then Inr ''Unable to fetch user information.''
      else and_then (py_in ''data'' data) (\<lambda>has_data.
        if \<not> has_data then Inr ''Unable to fetch user information.''
        else and_then (and_then (subscript data ''data'') (\<lambda>d. subscript d ''user''))
          (\<lambda>user.
             if \<not> truthy user
             then Inr (''User '' @ username @ '' not found.'')
             else fstring
                    [lit (CHR 0x0A # ''Name: ''),
                     fmt (py_get user ''name'' (JStr ''Not provided'')),
                     lit (CHR 0x0A # ''Username: ''), fmt (subscript user ''login''),
                     lit (CHR 0x0A # ''Bio: ''), fmt (py_get user ''bio'' (JStr ''No bio'')),
                     lit (CHR 0x0A # ''Company: ''),
                     fmt (py_get user ''company'' (JStr ''Not provided'')),
                     lit (CHR 0x0A # ''Location: ''),
                     fmt (py_get user ''location'' (JStr ''Not provided'')),
                     lit (CHR 0x0A # ''Email: ''),
                     fmt (py_get user ''email'' (JStr ''Not provided'')),
                     lit (CHR 0x0A # ''Website: ''),
                     fmt (py_get user ''websiteUrl'' (JStr ''Not provided'')),
                     lit (CHR 0x0A # ''Public Repositories: ''),
                     fmt (and_then (subscript user ''repositories'')
                            (\<lambda>r. subscript r ''totalCount'')),
                     lit (CHR 0x0A # ''Followers: ''),
                     fmt (and_then (subscript user ''followers'')
                            (\<lambda>f. subscript f ''totalCount'')),
                     lit (CHR 0x0A # ''Following: ''),
                     fmt (and_then (subscript user ''following'')
                            (\<lambda>f. subscript f ''totalCount'')),
                     lit (CHR 0x0A # ''Total Contributions: ''),
                     fmt (and_then (subscript user ''contributionsCollection'')
                            (\<lambda>c. subscript c ''totalCommitContributions'')),
                     lit [CHR 0x0A]])))"

text \<open>The handler passes three arguments, the third being \<open>GITHUB_TOKEN\<close>.\<close>

definition get_user_info ::
    "world \<Rightarrow> string \<Rightarrow> diag list \<Rightarrow> (py_error + string) \<times> diag list" where
  "get_user_info w username out =
     (let variables = JObj [(''username'', JStr username)]
      in case call_make_github_request w
                [JStr (strip (replace_newlines user_query)), variables, GITHUB_TOKEN w] out of
           (Inl e, out') \<Rightarrow> (Inl e, out')
         | (Inr data, out') \<Rightarrow> (user_text data username, out'))"

section \<open>Requests, layouts and fixed remotes used in the statements\<close>

text \<open>The request each handler has the client send.\<close>

definition repository_request :: "world \<Rightarrow> string \<Rightarrow> string \<Rightarrow> request" where
  "repository_request w owner name =
     graphql_request w (JStr (strip (replace_newlines repository_query)))
       (JObj [(''owner'', JStr owner), (''name'', JStr name)])"

definition user_request :: "world \<Rightarrow> string \<Rightarrow> request" where
  "user_request w username =
     graphql_request w (JStr (strip (replace_newlines user_query)))
       (JObj [(''username'', JStr username)])"

text \<open>The ten rendered fields of a repository summary, and the layout of the summary:
  the literal text of the f-string around them.\<close>

record repository_fields =
  shown_name :: string
  shown_description :: string
  shown_url :: string
  shown_stars :: string
  shown_forks :: string
  shown_issues :: string
  shown_pulls :: string
  shown_language :: string
  shown_languages :: string
  shown_release :: string

definition repository_summary :: "repository_fields \<Rightarrow> string" where
  "repository_summary f =
     ''\<newline>Repository: '' @ shown_name f @
     ''\<newline>Description: '' @ shown_description f @
     ''\<newline>URL: '' @ shown_url f @
     ''\<newline>Stars: '' @ shown_stars f @
     ''\<newline>Forks: '' @ shown_forks f @
     ''\<newline>Open Issues: '' @ shown_issues f @
     ''\<newline>Open Pull Requests: '' @ shown_pulls f @
     ''\<newline>Primary Language: '' @ shown_language f @
     ''\<newline>Languages: '' @ shown_languages f @
     ''\<newline>Latest Release: '' @ shown_release f @ ''\<newline>''"

text \<open>A process whose token is \<open>tok\<close> and whose network answers every request
  with \<open>r\<close>.\<close>

definition fixed_world :: "json \<Rightarrow> post_outcome \<Rightarrow> world" where
  "fixed_world tok r = \<lparr>GITHUB_TOKEN = tok, post = (\<lambda>req. r)\<rparr>"

text \<open>Following the specification's words for the third failure condition of the
  client: the parsed body contains a non-empty top-level \<^verbatim>\<open>errors\<close> array.\<close>

definition spec_errors_nonempty :: "json \<Rightarrow> bool" where
  "spec_errors_nonempty body =
     (case subscript body ''errors'' of Inr (JArr (e # es)) \<Rightarrow> True | _ \<Rightarrow> False)"

text \<open>Response bodies around a repository or a user object.\<close>

definition repository_response :: "json \<Rightarrow> json" where
  "repository_response repo = JObj [(''data'', JObj [(''repository'', repo)])]"

definition user_response :: "json \<Rightarrow> json" where
  "user_response user = JObj [(''data'', JObj [(''user'', user)])]"

text \<open>Sample payloads: a repository without description and primary language that
  has one release; the same repository whose one release is a draft, which has a tag
  and no publish timestamp; a repository whose \<^verbatim>\<open>description\<close> key is missing and
  that has no release; a user.\<close>

definition hello_world :: json where
  "hello_world =
     JObj [(''name'', JStr ''Hello-World''),
           (''description'', JNull),
           (''url'', JStr ''https://github.com/octocat/Hello-World''),
           (''stargazerCount'', JInt 42),
           (''forkCount'', JInt 7),
           (''issues'', JObj [(''totalCount'', JInt 3)]),
           (''pullRequests'', JObj [(''totalCount'', JInt 1)]),
           (''primaryLanguage'', JNull),
           (''languages'', JObj [(''nodes'', JArr [JObj [(''name'', JStr ''C'')],
                                                   JObj [(''name'', JStr ''Go'')]])]),
           (''releases'', JObj [(''nodes'',
              JArr [JObj [(''tagName'', JStr ''v1.0''),
                          (''publishedAt'', JStr ''2024-01-01T00:00:00Z'')]])])]"

definition hello_world_draft :: json where
  "hello_world_draft =
     JObj [(''name'', JStr ''Hello-World''),
           (''description'', JNull),
           (''url'', JStr ''https://github.com/octocat/Hello-World''),
           (''stargazerCount'', JInt 42),
           (''forkCount'', JInt 7),
           (''issues'', JObj [(''totalCount'', JInt 3)]),
           (''pullRequests'', JObj [(''totalCount'', JInt 1)]),
           (''primaryLanguage'', JNull),
           (''languages'', JObj [(''nodes'', JArr [JObj [(''name'', JStr ''C'')],
                                                   JObj [(''name'', JStr ''Go'')]])]),
           (''releases'', JObj [(''nodes'',
              JArr [JObj [(''tagName'', JStr ''v2.0''), (''publishedAt'', JNull)]])])]"

definition spoon_knife :: json where
  "spoon_knife =
     JObj [(''name'', JStr ''Spoon-Knife''),
           (''url'', JStr ''https://github.com/octocat/Spoon-Knife''),
           (''stargazerCount'', JInt 0),
           (''forkCount'', JInt 12),
           (''issues'', JObj [(''totalCount'', JInt 0)]),
           (''pullRequests'', JObj [(''totalCount'', JInt 5)]),
           (''primaryLanguage'', JObj [(''name'', JStr ''HTML'')]),
           (''languages'', JObj [(''nodes'', JArr [JObj [(''name'', JStr ''HTML'')]])]),
           (''releases'', JObj [(''nodes'', JArr [])])]"

definition octocat :: json where
  "octocat =
     JObj [(''name'', JStr ''The Octocat''),
           (''login'', JStr ''octocat''),
           (''bio'', JNull),
           (''company'', JStr ''@github''),
           (''location'', JStr ''San Francisco''),
           (''email'', JStr ''''),
           (''websiteUrl'', JStr ''https://github.blog''),
           (''repositories'', JObj [(''totalCount'', JInt 8)]),
           (''followers'', JObj [(''totalCount'', JInt 100)]),
           (''following'', JObj [(''totalCount'', JInt 9)]),
           (''contributionsCollection'', JObj [(''totalCommitContributions'', JInt 0)])]"

section \<open>Facts about the building blocks\<close>

lemma and_then_Inr_iff: "and_then r f = Inr y \<longleftrightarrow> (\<exists>x. r = Inr x \<and> f x = Inr y)"
  by (cases r) auto

lemma fstring_Cons_Inr_iff:
  "fstring (p # ps) = Inr s \<longleftrightarrow> (\<exists>a t. p = Inr a \<and> fstring ps = Inr t \<and> s = a @ t)"
  by (cases p) (auto split: sum.splits)

lemma fstring_Nil_Inr_iff: "fstring [] = Inr s \<longleftrightarrow> s = []"
  by auto

lemma lit_Inr_iff: "lit a = Inr b \<longleftrightarrow> b = a"
  by (auto simp: lit_def)

lemma fmt_Inr_iff: "fmt r = Inr a \<longleftrightarrow> (\<exists>v. r = Inr v \<and> a = py_str v)"
  by (cases r) (auto simp: fmt_def)

text \<open>Only a non-empty dictionary answers a lookup by a string.\<close>

lemma subscript_Inr_truthy: "subscript v k = Inr x \<Longrightarrow> truthy v"
  by (cases v) (auto split: option.splits)

lemma subscript_Inr_py_in: "subscript v k = Inr x \<Longrightarrow> py_in k v = Inr True"
  by (cases v) (auto split: option.splits)

section \<open>The client\<close>

lemma make_github_request_accepts:
  assumes "post w (graphql_request w query variables) = Responds status (Some body)"
    and "is_success status" and "py_in ''errors'' body = Inr False"
  shows "make_github_request w query variables out = (body, out)"
  using assms by (simp add: make_github_request_def)

lemma make_github_request_rejects:
  assumes "\<And>status body. post w (graphql_request w query variables) = Responds status (Some body)
             \<Longrightarrow> is_success status \<Longrightarrow> py_in ''errors'' body \<noteq> Inr False"
  shows "fst (make_github_request w query variables out) = JNull"
  using assms
  by (auto simp: make_github_request_def
           split: post_outcome.splits option.splits sum.splits bool.splits)

text \<open>What the client returns does not depend on what was printed before.\<close>

lemma make_github_request_out_independent:
  "fst (make_github_request w query variables out1) = fst (make_github_request w query variables out2)"
  by (auto simp: make_github_request_def
           split: post_outcome.splits option.splits sum.splits bool.splits)

section \<open>The handlers, step by step\<close>

lemma get_repository_info_unfold:
  "get_repository_info w owner name out =
     (repository_text (fst (make_github_request w (JStr (strip (replace_newlines repository_query)))
         (JObj [(''owner'', JStr owner), (''name'', JStr name)]) out)) owner name,
      snd (make_github_request w (JStr (strip (replace_newlines repository_query)))
         (JObj [(''owner'', JStr owner), (''name'', JStr name)]) out))"
  by (simp add: get_repository_info_def call_make_github_request_def split: prod.splits)

text \<open>The call with three arguments never reaches the client.\<close>

lemma get_user_info_raises: "get_user_info w username out = (Inl TypeError, out)"
  by (simp add: get_user_info_def call_make_github_request_def)

lemma get_repository_info_accepted:
  assumes "post w (repository_request w owner name) = Responds status (Some body)"
    and "is_success status" and "py_in ''errors'' body = Inr False"
  shows "get_repository_info w owner name out = (repository_text body owner name, out)"
  using make_github_request_accepts[of w _ _ status body out] assms
  by (simp add: get_repository_info_unfold repository_request_def)

text \<open>The repository handler after a failed request: a timeout, another exception, a
  status outside 2xx, a body that is not JSON, or a body that holds \<^verbatim>\<open>errors\<close>.\<close>

lemma get_repository_info_rejected:
  assumes "\<And>status body. post w (repository_request w owner name) = Responds status (Some body)
             \<Longrightarrow> is_success status \<Longrightarrow> py_in ''errors'' body \<noteq> Inr False"
  shows "fst (get_repository_info w owner name out) = Inr ''Unable to fetch repository information.''"
proof -
  have "fst (make_github_request w (JStr (strip (replace_newlines repository_query)))
         (JObj [(''owner'', JStr owner), (''name'', JStr name)]) out) = JNull"
    using assms by (intro make_github_request_rejects) (simp add: repository_request_def)
  then show ?thesis
    by (simp add: get_repository_info_unfold repository_text_def)
qed

text \<open>The repository handler on a response without \<^verbatim>\<open>data\<close>.\<close>

lemma repository_text_no_data:
  assumes "py_in ''data'' data = Inr False"
  shows "repository_text data owner name = Inr ''Unable to fetch repository information.''"
  using assms by (simp add: repository_text_def)

lemma get_repository_info_no_data:
  assumes "post w (repository_request w owner name) = Responds status (Some body)"
    and "is_success status" and "py_in ''errors'' body = Inr False"
    and "py_in ''data'' body = Inr False"
  shows "fst (get_repository_info w owner name out) = Inr ''Unable to fetch repository information.''"
  using get_repository_info_accepted[OF assms(1-3), of out] repository_text_no_data[OF assms(4)]
  by simp

text \<open>The not-found branch is taken for every falsy repository, \<^verbatim>\<open>null\<close> or not.\<close>

lemma repository_text_not_found:
  assumes "subscript data ''data'' = Inr d" and "subscript d ''repository'' = Inr repo"
    and "\<not> truthy repo"
  shows "repository_text data owner name =
           Inr (''Repository '' @ owner @ ''/'' @ name @ '' not found.'')"
  using assms subscript_Inr_truthy[OF assms(1)] subscript_Inr_py_in[OF assms(1)]
  by (simp add: repository_text_def)

lemma get_repository_info_not_found:
  assumes "post w (repository_request w owner name) = Responds status (Some body)"
    and "is_success status" and "py_in ''errors'' body = Inr False"
    and "subscript body ''data'' = Inr d" and "subscript d ''repository'' = Inr repo"
    and "\<not> truthy repo"
  shows "fst (get_repository_info w owner name out) =
           Inr (''Repository '' @ owner @ ''/'' @ name @ '' not found.'')"
  using get_repository_info_accepted[OF assms(1-3), of out] repository_text_not_found[OF assms(4-6)]
  by simp

text \<open>The same two branches in the body of the user handler.\<close>

lemma user_text_no_data:
  assumes "py_in ''data'' data = Inr False"
  shows "user_text data username = Inr ''Unable to fetch user information.''"
  using assms by (simp add: user_text_def)

lemma user_text_not_found:
  assumes "subscript data ''data'' = Inr d" and "subscript d ''user'' = Inr user"
    and "\<not> truthy user"
  shows "user_text data username = Inr (''User '' @ username @ '' not found.'')"
  using assms subscript_Inr_truthy[OF assms(1)] subscript_Inr_py_in[OF assms(1)]
  by (simp add: user_text_def)

text \<open>A rendered repository summary is the layout filled with the ten fields, each
  the \<^verbatim>\<open>str\<close> of the value its expression gave.\<close>

lemma repository_text_layout:
  assumes "subscript data ''data'' = Inr d" and "subscript d ''repository'' = Inr repo"
    and "truthy repo" and "repository_text data owner name = Inr s"
  shows "\<exists>nm_v desc_v url_v stars_v forks_v issues_o issues_v pulls_o pulls_v lang_v ls langs lr rel_v.
      subscript repo ''name'' = Inr nm_v \<and>
      py_get repo ''description'' (JStr ''No description'') = Inr desc_v \<and>
      subscript repo ''url'' = Inr url_v \<and>
      subscript repo ''stargazerCount'' = Inr stars_v \<and>
      subscript repo ''forkCount'' = Inr forks_v \<and>
      subscript repo ''issues'' = Inr issues_o \<and> subscript issues_o ''totalCount'' = Inr issues_v \<and>
      subscript repo ''pullRequests'' = Inr pulls_o \<and> subscript pulls_o ''totalCount'' = Inr pulls_v \<and>
      primary_language_text repo = Inr lang_v \<and>
      languages_of repo = Inr ls \<and> py_join '', '' ls = Inr langs \<and>
      latest_release_of repo = Inr lr \<and> release_text lr = Inr rel_v \<and>
      s = repository_summary
            \<lparr>shown_name = py_str nm_v, shown_description = py_str desc_v,
             shown_url = py_str url_v, shown_stars = py_str stars_v,
             shown_forks = py_str forks_v, shown_issues = py_str issues_v,
             shown_pulls = py_str pulls_v, shown_language = py_str lang_v,
             shown_languages = langs, shown_release = py_str rel_v\<rparr>"
  using assms subscript_Inr_truthy[OF assms(1)] subscript_Inr_py_in[OF assms(1)]
  by (clarsimp simp: repository_text_def repository_summary_def and_then_Inr_iff
      fstring_Cons_Inr_iff fstring_Nil_Inr_iff lit_Inr_iff fmt_Inr_iff)

lemma primary_language_text_null:
  "subscript repo ''primaryLanguage'' = Inr pl \<Longrightarrow> \<not> truthy pl \<Longrightarrow>
     primary_language_text repo = Inr (JStr ''None'')"
  by (simp add: primary_language_text_def)

lemma latest_release_of_empty:
  "subscript repo ''releases'' = Inr rels \<Longrightarrow> subscript rels ''nodes'' = Inr (JArr []) \<Longrightarrow>
     latest_release_of repo = Inr JNull"
  by (simp add: latest_release_of_def)

lemma latest_release_of_first:
  "subscript repo ''releases'' = Inr rels \<Longrightarrow>
   subscript rels ''nodes'' = Inr (JArr (rel # rest)) \<Longrightarrow>
     latest_release_of repo = Inr rel"
  by (simp add: latest_release_of_def)

lemma release_text_None: "\<not> truthy lr \<Longrightarrow> release_text lr = Inr (JStr ''None'')"
  by (simp add: release_text_def)

lemma release_text_tag:
  "subscript rel ''tagName'' = Inr (JStr tag) \<Longrightarrow>
   subscript rel ''publishedAt'' = Inr (JStr published) \<Longrightarrow>
     release_text rel = Inr (JStr (tag @ '' ('' @ published @ '')''))"
  using subscript_Inr_truthy[of rel "''tagName''"] by (simp add: release_text_def)

section \<open>The handlers on the sample payloads\<close>

lemmas handler_defs =
  get_repository_info_def call_make_github_request_def make_github_request_def
  fixed_world_def is_success_def repository_text_def user_text_def languages_of_def
  latest_release_of_def primary_language_text_def release_text_def lit_def fmt_def
  py_join_def show_int_def digit_char_def repository_response_def user_response_def

lemma hello_world_rendered:
  "get_repository_info
     (fixed_world (JStr ''token'') (Responds 200 (Some (repository_response hello_world))))
     ''octocat'' ''Hello-World'' [] =
   (Inr ''\<newline>Repository: Hello-World\<newline>Description: None\<newline>URL: https://github.com/octocat/Hello-World\<newline>Stars: 42\<newline>Forks: 7\<newline>Open Issues: 3\<newline>Open Pull Requests: 1\<newline>Primary Language: None\<newline>Languages: C, Go\<newline>Latest Release: v1.0 (2024-01-01T00:00:00Z)\<newline>'', [])"
  by (simp add: handler_defs hello_world_def)

lemma spoon_knife_rendered:
  "get_repository_info
     (fixed_world (JStr ''token'') (Responds 200 (Some (repository_response spoon_knife))))
     ''octocat'' ''Spoon-Knife'' [] =
   (Inr ''\<newline>Repository: Spoon-Knife\<newline>Description: No description\<newline>URL: https://github.com/octocat/Spoon-Knife\<newline>Stars: 0\<newline>Forks: 12\<newline>Open Issues: 0\<newline>Open Pull Requests: 5\<newline>Primary Language: HTML\<newline>Languages: HTML\<newline>Latest Release: None\<newline>'', [])"
  by (simp add: handler_defs spoon_knife_def)

lemma octocat_rendered:
  "user_text (user_response octocat) ''octocat'' =
   Inr ''\<newline>Name: The Octocat\<newline>Username: octocat\<newline>Bio: None\<newline>Company: @github\<newline>Location: San Francisco\<newline>Email: \<newline>Website: https://github.blog\<newline>Public Repositories: 8\<newline>Followers: 100\<newline>Following: 9\<newline>Total Contributions: 0\<newline>''"
  by (simp add: handler_defs octocat_def)

lemma fixed_world_post: "post (fixed_world tok r) req = r"
  by (simp add: fixed_world_def)

text \<open>What the repository handler returns does not depend on what was printed
  before the call.\<close>

lemma get_repository_info_out_independent:
  "fst (get_repository_info w owner name out1) = fst (get_repository_info w owner name out2)"
  using make_github_request_out_independent[of w _ _ out1 out2]
  by (simp add: get_repository_info_unfold)

text \<open>Two responses on which the repository handler leaves the branches above: a null
  repository that comes with an \<^verbatim>\<open>errors\<close> key is a failed request, and a body that is
  the array \<^verbatim>\<open>["data"]\<close> passes both tests of \<^verbatim>\<open>data\<close> and cannot be indexed.\<close>

lemma null_repository_with_errors:
  "fst (get_repository_info
          (fixed_world (JStr ''token'')
             (Responds 200 (Some (JObj [(''data'', JObj [(''repository'', JNull)]),
                                        (''errors'', JArr [JObj [(''type'', JStr ''NOT_FOUND'')]])]))))
          ''octocat'' ''missing'' []) = Inr ''Unable to fetch repository information.''"
  by (simp add: handler_defs)

lemma array_body_raises:
  "fst (get_repository_info (fixed_world (JStr ''token'') (Responds 200 (Some (JArr [JStr ''data'']))))
          ''octocat'' ''Hello-World'' []) = Inl TypeError"
  by (simp add: handler_defs)

section \<open>The release field of a rendered summary\<close>

text \<open>
  When the handler returns a summary for a 2xx response without \<^verbatim>\<open>errors\<close>, the
  Latest Release field is \<^verbatim>\<open>None\<close> for an empty release list, and the tag name
  followed by the publish timestamp in parentheses for a list of one release in which
  both are strings.
\<close>

lemma release_field_of_summary:
  assumes "post w (repository_request w owner name) = Responds status (Some body)"
    and "is_success status" and "py_in ''errors'' body = Inr False"
    and "subscript body ''data'' = Inr d" and "subscript d ''repository'' = Inr repo"
    and "subscript repo ''releases'' = Inr rels" and "subscript rels ''nodes'' = Inr (JArr nodes)"
    and "get_repository_info w owner name out = (Inr s, out')"
  shows "(nodes = [] \<longrightarrow>
           (\<exists>f. s = repository_summary f \<and> shown_release f = ''None''))
       \<and> (\<forall>rel tag published.
            nodes = [rel] \<and> subscript rel ''tagName'' = Inr (JStr tag)
              \<and> subscript rel ''publishedAt'' = Inr (JStr published) \<longrightarrow>
           (\<exists>f. s = repository_summary f \<and> shown_release f = tag @ '' ('' @ published @ '')''))"
proof -
  have rendered: "repository_text body owner name = Inr s"
    using get_repository_info_accepted[OF assms(1-3), of out] assms(8) by simp
  have "truthy repo"
    using assms(6) by (rule subscript_Inr_truthy)
  from repository_text_layout[OF assms(4,5) this rendered]
  obtain f lr rel_v where
    lr: "latest_release_of repo = Inr lr" and rel: "release_text lr = Inr rel_v" and
    s: "s = repository_summary f" and f: "shown_release f = py_str rel_v"
    by fastforce
  have empty: "py_str rel_v = ''None''" if "nodes = []"
    using that lr rel latest_release_of_empty[OF assms(6)] assms(7) release_text_None[of JNull]
    by auto
  have one: "py_str rel_v = tag @ '' ('' @ published @ '')''"
    if "nodes = [r]" "subscript r ''tagName'' = Inr (JStr tag)"
       "subscript r ''publishedAt'' = Inr (JStr published)" for r tag published
    using that lr rel latest_release_of_first[OF assms(6), of r "[]"] assms(7)
      release_text_tag[of r tag published]
    by auto
  show ?thesis
    using s f empty one by auto
qed

text \<open>Both cases at work: the repository without a release, and the one whose only
  release is \<^verbatim>\<open>v1.0\<close> of 2024-01-01.\<close>

lemma release_field_of_summary_samples:
  "(\<exists>s f. fst (get_repository_info
              (fixed_world (JStr ''token'') (Responds 200 (Some (repository_response spoon_knife))))
              ''octocat'' ''Spoon-Knife'' []) = Inr s
         \<and> s = repository_summary f \<and> shown_release f = ''None'')
   \<and> (\<exists>s f. fst (get_repository_info
              (fixed_world (JStr ''token'') (Responds 200 (Some (repository_response hello_world))))
              ''octocat'' ''Hello-World'' []) = Inr s
         \<and> s = repository_summary f \<and> shown_release f = ''v1.0 (2024-01-01T00:00:00Z)'')"
proof -
  have ok: "is_success 200"
    by (simp add: is_success_def)
  have no_errors: "py_in ''errors'' (repository_response repo) = Inr False" for repo
    by (simp add: repository_response_def)
  have data: "subscript (repository_response repo) ''data'' = Inr (JObj [(''repository'', repo)])"
    for repo
    by (simp add: repository_response_def)
  have repo: "subscript (JObj [(''repository'', repo)]) ''repository'' = Inr repo" for repo
    by simp
  have rels1: "subscript spoon_knife ''releases'' = Inr (JObj [(''nodes'', JArr [])])"
    by (simp add: spoon_knife_def)
  have nodes1: "subscript (JObj [(''nodes'', JArr [])]) ''nodes'' = Inr (JArr [])"
    by simp
  have rels2: "subscript hello_world ''releases'' =
      Inr (JObj [(''nodes'', JArr [JObj [(''tagName'', JStr ''v1.0''),
                                         (''publishedAt'', JStr ''2024-01-01T00:00:00Z'')]])])"
    by (simp add: hello_world_def)
  have nodes2: "subscript (JObj [(''nodes'', JArr [JObj [(''tagName'', JStr ''v1.0''),
                                         (''publishedAt'', JStr ''2024-01-01T00:00:00Z'')]])]) ''nodes'' =
      Inr (JArr [JObj [(''tagName'', JStr ''v1.0''),
                       (''publishedAt'', JStr ''2024-01-01T00:00:00Z'')]])"
    by simp
  have first: "\<exists>f. ''\<newline>Repository: Spoon-Knife\<newline>Description: No description\<newline>URL: https://github.com/octocat/Spoon-Knife\<newline>Stars: 0\<newline>Forks: 12\<newline>Open Issues: 0\<newline>Open Pull Requests: 5\<newline>Primary Language: HTML\<newline>Languages: HTML\<newline>Latest Release: None\<newline>'' = repository_summary f
            \<and> shown_release f = ''None''"
    using release_field_of_summary[OF fixed_world_post ok no_errors data repo rels1 nodes1
        spoon_knife_rendered]
    by blast
  have second: "\<exists>f. ''\<newline>Repository: Hello-World\<newline>Description: None\<newline>URL: https://github.com/octocat/Hello-World\<newline>Stars: 42\<newline>Forks: 7\<newline>Open Issues: 3\<newline>Open Pull Requests: 1\<newline>Primary Language: None\<newline>Languages: C, Go\<newline>Latest Release: v1.0 (2024-01-01T00:00:00Z)\<newline>'' = repository_summary f
            \<and> shown_release f = ''v1.0 (2024-01-01T00:00:00Z)''"
    using release_field_of_summary[OF fixed_world_post ok no_errors data repo rels2 nodes2
        hello_world_rendered]
    by simp
  show ?thesis
    using first second by (simp add: spoon_knife_rendered hello_world_rendered)
qed

text \<open>The expression of the field raises when the release has no publish timestamp,
  whatever the tag.\<close>

lemma release_text_unpublished:
  "subscript rel ''tagName'' = Inr (JStr tag) \<Longrightarrow> subscript rel ''publishedAt'' = Inr JNull \<Longrightarrow>
     release_text rel = Inl TypeError"
  using subscript_Inr_truthy[of rel "''tagName''"] by (simp add: release_text_def)

section \<open>The claims\<close>

text \<open>
  Claim C6, at the input where it fails. The response is successful and holds one
  release, a draft with the tag \<^verbatim>\<open>v2.0\<close> and a null publish timestamp. The handler
  returns no summary: the expression of the Latest Release field adds \<^verbatim>\<open>None\<close> to a
  string and raises \<^verbatim>\<open>TypeError\<close>.
\<close>

theorem get_repository_info_raises_on_draft_release:
  "latest_release_of hello_world_draft =
     Inr (JObj [(''tagName'', JStr ''v2.0''), (''publishedAt'', JNull)])
   \<and> release_text (JObj [(''tagName'', JStr ''v2.0''), (''publishedAt'', JNull)]) = Inl TypeError
   \<and> fst (get_repository_info
            (fixed_world (JStr ''token'')
               (Responds 200 (Some (repository_response hello_world_draft))))
            ''octocat'' ''Hello-World'' []) = Inl TypeError"
  by (simp add: handler_defs hello_world_draft_def)

text \<open>
  Claim C7. For a successful repository response whose \<^verbatim>\<open>primaryLanguage\<close> is null,
  the Primary Language field of the summary is the text \<^verbatim>\<open>None\<close>.
\<close>

theorem primary_language_null_renders_None:
  assumes "post w (repository_request w owner name) = Responds status (Some body)"
    and "is_success status" and "py_in ''errors'' body = Inr False"
    and "subscript body ''data'' = Inr d" and "subscript d ''repository'' = Inr repo"
    and "subscript repo ''primaryLanguage'' = Inr JNull"
    and "get_repository_info w owner name out = (Inr s, out')"
  shows "\<exists>f. s = repository_summary f \<and> shown_language f = ''None''"
proof -
  have rendered: "repository_text body owner name = Inr s"
    using get_repository_info_accepted[OF assms(1-3), of out] assms(7) by simp
  have "truthy repo"
    using assms(6) by (rule subscript_Inr_truthy)
  from repository_text_layout[OF assms(4,5) this rendered]
  obtain f lang_v where
    lang: "primary_language_text repo = Inr lang_v" and
    s: "s = repository_summary f" and f: "shown_language f = py_str lang_v"
    by fastforce
  have "lang_v = JStr ''None''"
    using lang primary_language_text_null[OF assms(6)] by simp
  then show ?thesis
    using s f by auto
qed

theorem primary_language_null_renders_None_witness:
  "\<exists>s f. fst (get_repository_info
             (fixed_world (JStr ''token'') (Responds 200 (Some (repository_response hello_world))))
             ''octocat'' ''Hello-World'' []) = Inr s
       \<and> s = repository_summary f \<and> shown_language f = ''None''"
proof -
  have ok: "is_success 200"
    by (simp add: is_success_def)
  have no_errors: "py_in ''errors'' (repository_response hello_world) = Inr False"
    by (simp add: repository_response_def)
  have data: "subscript (repository_response hello_world) ''data'' =
      Inr (JObj [(''repository'', hello_world)])"
    by (simp add: repository_response_def)
  have repo: "subscript (JObj [(''repository'', hello_world)]) ''repository'' = Inr hello_world"
    by simp
  have null: "subscript hello_world ''primaryLanguage'' = Inr JNull"
    by (simp add: hello_world_def)
  show ?thesis
    using primary_language_null_renders_None[OF fixed_world_post ok no_errors data repo null
        hello_world_rendered]
    by (simp add: hello_world_rendered)
qed


text \<open>
  Claim C10. The repository handler reads the required fields of a truthy repository
  without checking that they are there: for every caller there is a 2xx response with a
  \<^verbatim>\<open>data\<close> key and a truthy repository object, one without \<^verbatim>\<open>languages\<close>, on which
  the handler raises instead of returning a string; and on the response whose
  \<^verbatim>\<open>data\<close> is null it raises \<^verbatim>\<open>TypeError\<close>.
\<close>

theorem missing_fields_raise:
  "(\<exists>body d repo e.
      py_in ''data'' body = Inr True \<and> subscript body ''data'' = Inr d \<and>
      subscript d ''repository'' = Inr repo \<and> truthy repo \<and>
      fst (get_repository_info (fixed_world tok (Responds 200 (Some body))) owner name out) = Inl e)
   \<and> fst (get_repository_info (fixed_world tok (Responds 200 (Some (JObj [(''data'', JNull)]))))
            owner name out) = Inl TypeError"
proof -
  let ?repo = "JObj [(''name'', JStr ''Hello-World'')]"
  have "fst (get_repository_info
               (fixed_world tok (Responds 200 (Some (repository_response ?repo)))) owner name out) =
          Inl KeyError"
    by (simp add: handler_defs)
  moreover have "py_in ''data'' (repository_response ?repo) = Inr True"
    and "subscript (repository_response ?repo) ''data'' = Inr (JObj [(''repository'', ?repo)])"
    and "subscript (JObj [(''repository'', ?repo)]) ''repository'' = Inr ?repo"
    and "truthy ?repo"
    by (simp_all add: repository_response_def)
  moreover have "fst (get_repository_info
      (fixed_world tok (Responds 200 (Some (JObj [(''data'', JNull)])))) owner name out) =
        Inl TypeError"
    by (simp add: handler_defs)
  ultimately show ?thesis
    by blast
qed

text \<open>
  Claim C1, at the input where it fails. The user handler, called for \<^verbatim>\<open>octocat\<close>
  against a remote that answers 200 with a complete user payload, returns no string:
  its call of the client with three arguments raises \<^verbatim>\<open>TypeError\<close>. The rest of
  its body would have rendered the payload.
\<close>

theorem get_user_info_raises_for_octocat:
  "fst (get_user_info (fixed_world (JStr ''token'') (Responds 200 (Some (user_response octocat))))
          ''octocat'' []) = Inl TypeError
   \<and> (\<exists>s. user_text (user_response octocat) ''octocat'' = Inr s)"
  by (simp add: get_user_info_raises octocat_rendered)

text \<open>
  Claim C2, at the input where it fails. The description of \<open>hello_world\<close> is null,
  and the summary shows \<^verbatim>\<open>None\<close> in the Description field, not the placeholder
  \<^verbatim>\<open>No description\<close>: \<^verbatim>\<open>get\<close> takes its default for a missing key only.
\<close>

theorem null_description_renders_None:
  "subscript hello_world ''description'' = Inr JNull
   \<and> fst (get_repository_info
            (fixed_world (JStr ''token'') (Responds 200 (Some (repository_response hello_world))))
            ''octocat'' ''Hello-World'' []) =
       Inr (repository_summary
              \<lparr>shown_name = ''Hello-World'', shown_description = ''None'',
               shown_url = ''https://github.com/octocat/Hello-World'', shown_stars = ''42'',
               shown_forks = ''7'', shown_issues = ''3'', shown_pulls = ''1'',
               shown_language = ''None'', shown_languages = ''C, Go'',
               shown_release = ''v1.0 (2024-01-01T00:00:00Z)''\<rparr>)"
  by (simp add: hello_world_rendered repository_summary_def) (simp add: hello_world_def)

text \<open>
  Claim C4, at the input where it fails. After a timeout the repository handler returns
  its fixed text; the user handler raises \<^verbatim>\<open>TypeError\<close>, although its body maps a
  failed request to the text of its own.
\<close>

theorem get_user_info_raises_on_timeout:
  "fst (get_repository_info (fixed_world (JStr ''token'') RaisesTimeout)
          ''octocat'' ''Hello-World'' []) = Inr ''Unable to fetch repository information.''
   \<and> fst (get_user_info (fixed_world (JStr ''token'') RaisesTimeout) ''octocat'' []) =
       Inl TypeError
   \<and> user_text JNull ''octocat'' = Inr ''Unable to fetch user information.''"
  by (simp add: get_user_info_raises handler_defs)

text \<open>
  Claim C5, at the input where it fails. On a response whose entity is null the
  repository handler names \<^verbatim>\<open>owner/name\<close> in its not-found message; the user
  handler raises \<^verbatim>\<open>TypeError\<close>, although its body has the message for the user name.
\<close>

theorem get_user_info_raises_on_null_user:
  "fst (get_repository_info
          (fixed_world (JStr ''token'') (Responds 200 (Some (repository_response JNull))))
          ''octocat'' ''Hello-World'' []) = Inr ''Repository octocat/Hello-World not found.''
   \<and> fst (get_user_info
            (fixed_world (JStr ''token'') (Responds 200 (Some (user_response JNull))))
            ''octocat'' []) = Inl TypeError
   \<and> user_text (user_response JNull) ''octocat'' = Inr ''User octocat not found.''"
  by (simp add: get_user_info_raises handler_defs)

text \<open>
  Claim C9, at the input where it fails. On a response whose entity is the empty
  object, falsy and not null, the repository handler returns its not-found message;
  the user handler raises \<^verbatim>\<open>TypeError\<close>, although its body has the same test.
\<close>

theorem get_user_info_raises_on_empty_user:
  "fst (get_repository_info
          (fixed_world (JStr ''token'') (Responds 200 (Some (repository_response (JObj [])))))
          ''octocat'' ''Hello-World'' []) = Inr ''Repository octocat/Hello-World not found.''
   \<and> fst (get_user_info
            (fixed_world (JStr ''token'') (Responds 200 (Some (user_response (JObj [])))))
            ''octocat'' []) = Inl TypeError
   \<and> user_text (user_response (JObj [])) ''octocat'' = Inr ''User octocat not found.''"
  by (simp add: get_user_info_raises handler_defs)

text \<open>
  Claim C3, as the specification states it, fails on a 2xx response whose body has
  \<^verbatim>\<open>data\<close> and an empty \<^verbatim>\<open>errors\<close> array: the body holds no non-empty
  \<^verbatim>\<open>errors\<close> array, and the client returns \<^verbatim>\<open>None\<close>.
\<close>

theorem empty_errors_array_is_rejected:
  "is_success 200
   \<and> \<not> spec_errors_nonempty (JObj [(''data'', JObj [(''repository'', JNull)]), (''errors'', JArr [])])
   \<and> fst (make_github_request
            (fixed_world (JStr ''token'')
               (Responds 200 (Some (JObj [(''data'', JObj [(''repository'', JNull)]),
                                          (''errors'', JArr [])]))))
            (JStr ''query'') (JObj []) []) = JNull"
  by (simp add: is_success_def spec_errors_nonempty_def make_github_request_def fixed_world_def)

text \<open>
  Claim C3, amended. The client returns the parsed body exactly when the status is 2xx,
  the body is JSON and the test \<^verbatim>\<open>"errors" in body\<close> is false; for an object that
  is: it has no top-level key \<^verbatim>\<open>errors\<close>, whatever the value of the key would be.
  An object with that key, an empty array included, gives \<^verbatim>\<open>None\<close>, and its
  \<^verbatim>\<open>data\<close> is discarded.
\<close>

theorem make_github_request_result:
  "((fst (make_github_request w query variables out) = body \<and> body \<noteq> JNull) \<longleftrightarrow>
      (\<exists>status. post w (graphql_request w query variables) = Responds status (Some body)
         \<and> is_success status \<and> py_in ''errors'' body = Inr False))
   \<and> (\<forall>status kvs.
         post w (graphql_request w query variables) = Responds status (Some (JObj kvs))
           \<and> map_of kvs ''errors'' \<noteq> None \<longrightarrow>
         fst (make_github_request w query variables out) = JNull)"
proof -
  have forward: "\<exists>status. post w (graphql_request w query variables) = Responds status (Some body)
         \<and> is_success status \<and> py_in ''errors'' body = Inr False"
    if "fst (make_github_request w query variables out) = body" and "body \<noteq> JNull"
    using that
    by (auto simp: make_github_request_def
             split: post_outcome.splits option.splits sum.splits bool.splits if_splits)
  have backward: "fst (make_github_request w query variables out) = body \<and> body \<noteq> JNull"
    if "post w (graphql_request w query variables) = Responds status (Some body)"
      and "is_success status" and "py_in ''errors'' body = Inr False" for status
    using that make_github_request_accepts[of w query variables status body out] by auto
  have keyed: "fst (make_github_request w query variables out) = JNull"
    if "post w (graphql_request w query variables) = Responds status (Some (JObj kvs))"
      and "map_of kvs ''errors'' \<noteq> None" for status kvs
    using that by (auto simp: make_github_request_def split: option.splits)
  show ?thesis
    using forward backward keyed by blast
qed

text \<open>The amended claim at work: the body of \<open>hello_world\<close> is returned; the same
  body with an empty \<^verbatim>\<open>errors\<close> array added is not.\<close>

theorem make_github_request_result_witness:
  "fst (make_github_request
          (fixed_world (JStr ''token'') (Responds 200 (Some (repository_response hello_world))))
          (JStr ''query'') (JObj []) []) = repository_response hello_world
   \<and> fst (make_github_request
            (fixed_world (JStr ''token'')
               (Responds 200 (Some (JObj [(''data'', JObj [(''repository'', hello_world)]),
                                          (''errors'', JArr [])]))))
            (JStr ''query'') (JObj []) []) = JNull"
proof -
  have "\<exists>status.
          post (fixed_world (JStr ''token'') (Responds 200 (Some (repository_response hello_world))))
            (graphql_request
               (fixed_world (JStr ''token'') (Responds 200 (Some (repository_response hello_world))))
               (JStr ''query'') (JObj [])) =
            Responds status (Some (repository_response hello_world))
          \<and> is_success status \<and> py_in ''errors'' (repository_response hello_world) = Inr False"
    by (simp add: fixed_world_post is_success_def repository_response_def)
  then have first: "fst (make_github_request
          (fixed_world (JStr ''token'') (Responds 200 (Some (repository_response hello_world))))
          (JStr ''query'') (JObj []) []) = repository_response hello_world"
    using make_github_request_result[of
        "fixed_world (JStr ''token'') (Responds 200 (Some (repository_response hello_world)))"
        "JStr ''query''" "JObj []" "[]" "repository_response hello_world"]
    by blast
  have "post (fixed_world (JStr ''token'')
               (Responds 200 (Some (JObj [(''data'', JObj [(''repository'', hello_world)]),
                                          (''errors'', JArr [])]))))
          (graphql_request (fixed_world (JStr ''token'')
               (Responds 200 (Some (JObj [(''data'', JObj [(''repository'', hello_world)]),
                                          (''errors'', JArr [])]))))
             (JStr ''query'') (JObj [])) =
        Responds 200 (Some (JObj [(''data'', JObj [(''repository'', hello_world)]),
                                  (''errors'', JArr [])]))
        \<and> map_of [(''data'', JObj [(''repository'', hello_world)]), (''errors'', JArr [])]
             ''errors'' \<noteq> None"
    by (simp add: fixed_world_post)
  then have second: "fst (make_github_request
            (fixed_world (JStr ''token'')
               (Responds 200 (Some (JObj [(''data'', JObj [(''repository'', hello_world)]),
                                          (''errors'', JArr [])]))))
            (JStr ''query'') (JObj []) []) = JNull"
    using make_github_request_result[of
        "fixed_world (JStr ''token'')
               (Responds 200 (Some (JObj [(''data'', JObj [(''repository'', hello_world)]),
                                          (''errors'', JArr [])])))"
        "JStr ''query''" "JObj []" "[]" JNull]
    by blast
  show ?thesis
    using first second by simp
qed

end
